theory Spec2Isabelle
  imports Complex_Main
begin

section \<open>Projectile motion: the simulation of \<^verbatim>\<open>main.py\<close>\<close>

text \<open>
  The program is a single Python module: three pure functions (\<^verbatim>\<open>Ball.next_position\<close>,
  \<^verbatim>\<open>get_power\<close>, \<^verbatim>\<open>get_angle\<close>) and a frame loop over global variables.

  Numbers. Python's \<^verbatim>\<open>float\<close> is modelled by \<^typ>\<open>real\<close>: \<^verbatim>\<open>math.sqrt\<close>,
  \<^verbatim>\<open>math.atan\<close>, \<^verbatim>\<open>math.cos\<close>, \<^verbatim>\<open>math.sin\<close> and \<^verbatim>\<open>math.pi\<close> are the real
  \<^const>\<open>sqrt\<close>, \<^const>\<open>arctan\<close>, \<^const>\<open>cos\<close>, \<^const>\<open>sin\<close> and \<^const>\<open>pi\<close>. Rounding,
  infinities and NaN of IEEE doubles are outside this model: the functions
  \<open>next_position\<close>, \<open>get_power\<close> and \<open>get_angle\<close> and the frame loop built on them
  are the exact arithmetic the program's formulas denote.

  Errors. The operations of the module that can raise return a sum, \<open>Inl\<close> being the
  exception: the true division \<^verbatim>\<open>/\<close> (\<^verbatim>\<open>ZeroDivisionError\<close>), \<^verbatim>\<open>math.sqrt\<close>
  (\<^verbatim>\<open>ValueError\<close> on a negative argument) and the float power \<^verbatim>\<open>**\<close>
  (\<^verbatim>\<open>OverflowError\<close> when the result is out of the range of a double). The last one
  has no counterpart in exact arithmetic; it is kept in a second reading of the two
  functions that square, \<open>next_position_checked\<close> and \<open>get_power_checked\<close>, which is
  the one to ask whether the code can fail.
\<close>

subsection \<open>Constants\<close>

definition WIDTH :: real where "WIDTH = 1200"
definition HEIGHT :: real where "HEIGHT = 500"
definition RADIUS :: real where "RADIUS = 10"

type_synonym rgb = "nat \<times> nat \<times> nat"

definition BLACK :: rgb where "BLACK = (0, 0, 0)"
definition GRAY :: rgb where "GRAY = (64, 64, 64)"
definition WHITE :: rgb where "WHITE = (255, 255, 255)"

definition START_X :: real where "START_X = WIDTH / 2"
definition START_Y :: real where "START_Y = HEIGHT - RADIUS - 1"

subsection \<open>Python's failing operations\<close>

datatype py_error = ZeroDivisionError | ValueError | OverflowError

definition py_truediv :: "real \<Rightarrow> real \<Rightarrow> py_error + real" where
  "py_truediv a b = (if b = 0 then Inl ZeroDivisionError else Inr (a / b))"

definition py_sqrt :: "real \<Rightarrow> py_error + real" where
  "py_sqrt a = (if a < 0 then Inl ValueError else Inr (sqrt a))"

subsection \<open>Kinematics: \<^verbatim>\<open>Ball.next_position\<close>\<close>

text \<open>
  A static method; its body has no division and no square root, so in exact arithmetic
  it returns a pair for every argument (the overflow of its float power is the subject
  of \<open>next_position_checked\<close> below). \<^verbatim>\<open>4.9 * time ** 2\<close> is
  \<open>4.9 * (time ** 2)\<close> in Python.
\<close>

definition next_position :: "real \<Rightarrow> real \<Rightarrow> real \<Rightarrow> real \<Rightarrow> real \<Rightarrow> real \<times> real" where
  "next_position sx sy pw ang t =
     (let velocity_x = cos ang * pw;
          velocity_y = sin ang * pw;
          distance_x = velocity_x * t;
          distance_y = velocity_y * t - 4.9 * t\<^sup>2;
          next_x = sx + distance_x;
          next_y = sy - distance_y
      in (next_x, next_y))"

subsection \<open>Gesture to launch parameters: \<^verbatim>\<open>get_power\<close>, \<^verbatim>\<open>get_angle\<close>\<close>

text \<open>
  \<^verbatim>\<open>line\<close> is the two-element list \<^verbatim>\<open>[(ball.x, ball.y), pygame.mouse.get_pos()]\<close>
  built at the only call site: a pair of points, \<^verbatim>\<open>line[0]\<close> the ball and
  \<^verbatim>\<open>line[1]\<close> the pointer.
\<close>

type_synonym point = "real \<times> real"
type_synonym line = "point \<times> point"

definition get_power :: "line \<Rightarrow> py_error + real" where
  "get_power l =
     (case py_sqrt ((snd (snd l) - snd (fst l))\<^sup>2 + (fst (snd l) - fst (fst l))\<^sup>2) of
        Inl e \<Rightarrow> Inl e
      | Inr r \<Rightarrow> py_truediv r 8)"

definition get_angle :: "line \<Rightarrow> py_error + real" where
  "get_angle l =
     (let x = fst (fst l);
          y = snd (fst l);
          mouse_x = fst (snd l);
          mouse_y = snd (snd l)
      in case (if mouse_x \<noteq> x
               then (case py_truediv (mouse_y - y) (mouse_x - x) of
                       Inl e \<Rightarrow> Inl e
                     | Inr q \<Rightarrow> Inr (arctan q))
               else Inr (pi / 2)) of
           Inl e \<Rightarrow> Inl e
         | Inr ang \<Rightarrow>
             Inr (if x < mouse_x \<and> y > mouse_y then \<bar>ang\<bar>
                  else if x > mouse_x \<and> y > mouse_y then pi - ang
                  else if x > mouse_x \<and> y < mouse_y then pi + \<bar>ang\<bar>
                  else if x < mouse_x \<and> y < mouse_y then 2 * pi - ang
                  else ang))"

subsection \<open>The ball and the global state of the frame loop\<close>

record ball =
  ball_x :: real
  ball_y :: real
  ball_radius :: real
  ball_color :: rgb

text \<open>
  The module's globals \<^verbatim>\<open>ball\<close>, \<^verbatim>\<open>shooting\<close>, \<^verbatim>\<open>start_x\<close>, \<^verbatim>\<open>start_y\<close>,
  \<^verbatim>\<open>time\<close>, \<^verbatim>\<open>power\<close>, \<^verbatim>\<open>angle\<close>. The field for \<^verbatim>\<open>power\<close> is \<open>power_val\<close>
  (\<open>power\<close> is HOL's exponentiation).
\<close>

record state =
  ball :: ball
  shooting :: bool
  start_x :: real
  start_y :: real
  time :: real
  power_val :: real
  angle :: real

definition initial_state :: state where
  "initial_state =
     \<lparr>ball = \<lparr>ball_x = START_X, ball_y = START_Y, ball_radius = RADIUS, ball_color = WHITE\<rparr>,
      shooting = False, start_x = 0, start_y = 0, time = 0, power_val = 0, angle = 0\<rparr>"

text \<open>
  The first part of one loop iteration (\<^verbatim>\<open>if shooting: ...\<close>): move the ball, or stop
  it. \<^verbatim>\<open>draw_window\<close>, which follows, draws the ball at the position this leaves and
  changes no variable.
\<close>

definition tick :: "state \<Rightarrow> state" where
  "tick s =
     (if shooting s then
        (if ball_y (ball s) \<le> HEIGHT - ball_radius (ball s) then
           (let t = time s + 0.05;
                position = next_position (start_x s) (start_y s) (power_val s) (angle s) t
            in s\<lparr>time := t, ball := (ball s)\<lparr>ball_x := fst position, ball_y := snd position\<rparr>\<rparr>)
         else s\<lparr>shooting := False, ball := (ball s)\<lparr>ball_y := START_Y\<rparr>\<rparr>)
      else s)"

text \<open>
  Events. \<^verbatim>\<open>pygame.mouse.get_pos()\<close> is polled when a \<^verbatim>\<open>MOUSEBUTTONDOWN\<close> is
  handled and returns integer window coordinates; the event carries that answer. Any
  other event type is \<open>OTHER\<close>.
\<close>

datatype event = QUIT | MOUSEBUTTONDOWN "int \<times> int" | OTHER

text \<open>
  What the process is after a step: still running with a state, ended by
  \<^verbatim>\<open>exit()\<close>, or stopped by an uncaught exception.
\<close>

datatype outcome = Running state | Exited | Crashed py_error

definition handle_event :: "event \<Rightarrow> state \<Rightarrow> outcome" where
  "handle_event ev s =
     (case ev of
        QUIT \<Rightarrow> Exited
      | MOUSEBUTTONDOWN m \<Rightarrow>
          (if \<not> shooting s then
             (let l = ((ball_x (ball s), ball_y (ball s)), (real_of_int (fst m), real_of_int (snd m)))
              in case get_power l of
                   Inl e \<Rightarrow> Crashed e
                 | Inr p \<Rightarrow>
                     (case get_angle l of
                        Inl e \<Rightarrow> Crashed e
                      | Inr a \<Rightarrow>
                          Running (s\<lparr>shooting := True,
                                     start_x := ball_x (ball s),
                                     start_y := ball_y (ball s),
                                     time := 0,
                                     power_val := p,
                                     angle := a\<rparr>)))
           else Running s)
      | OTHER \<Rightarrow> Running s)"

text \<open>The \<^verbatim>\<open>for event in pygame.event.get()\<close> loop.\<close>

fun handle_events :: "event list \<Rightarrow> state \<Rightarrow> outcome" where
  "handle_events [] s = Running s"
| "handle_events (ev # evs) s =
     (case handle_event ev s of
        Running s' \<Rightarrow> handle_events evs s'
      | Exited \<Rightarrow> Exited
      | Crashed e \<Rightarrow> Crashed e)"

text \<open>One iteration of \<^verbatim>\<open>while True\<close>: the tick, the drawing, the pending events.\<close>

definition iteration :: "event list \<Rightarrow> state \<Rightarrow> outcome" where
  "iteration evs s = handle_events evs (tick s)"

text \<open>
  The loop never ends by itself; \<open>run\<close> takes the event queues of the iterations to
  perform, one list per iteration, and gives the outcome at the top of the iteration
  that would follow.
\<close>

fun run :: "event list list \<Rightarrow> state \<Rightarrow> outcome" where
  "run [] s = Running s"
| "run (evs # rest) s =
     (case iteration evs s of
        Running s' \<Rightarrow> run rest s'
      | Exited \<Rightarrow> Exited
      | Crashed e \<Rightarrow> Crashed e)"

text \<open>The ball is in flight: the test of the moving branch of the tick.\<close>

definition airborne :: "state \<Rightarrow> bool" where
  "airborne s \<longleftrightarrow> shooting s \<and> ball_y (ball s) \<le> HEIGHT - ball_radius (ball s)"

definition position :: "state \<Rightarrow> real \<times> real" where
  "position s = (ball_x (ball s), ball_y (ball s))"

subsection \<open>The float power and its overflow\<close>





subsection \<open>The invariant of the loop\<close>

text \<open>
  What holds of the state at the top of every iteration: either the ball rests on the
  ground line (its height is \<open>START_Y\<close> and a tick does not move it) and nothing is
  being shot, or a shot is under way with a non-negative power, an angle in \<open>[0, 2 * pi)\<close>
  and a non-negative elapsed time. The inequality of the two truth values says that
  exactly one of them holds.
\<close>

definition consistent :: "state \<Rightarrow> bool" where
  "consistent s \<longleftrightarrow>
     ((\<not> shooting s \<and> ball_y (ball s) = START_Y \<and> position (tick s) = position s)
       \<noteq> (shooting s \<and> 0 \<le> power_val s \<and> 0 \<le> angle s \<and> angle s < 2 * pi \<and> 0 \<le> time s))"

subsection \<open>A concrete shot\<close>

text \<open>
  The states of one run of the program: from the initial state, a press with the pointer
  at (700, 489), i.e. 100 to the right of the ball and level with it. \<open>get_power\<close> gives
  100 / 8 = 12.5 and \<open>get_angle\<close> gives \<open>arctan 0 = 0\<close> (no quadrant test holds, the
  heights being equal), so the ball flies to the right and only falls:
  after \<open>k\<close> ticks it is at (600 + 0.625 k, 489 + 0.01225 k^2).
\<close>

definition launched_state :: state where
  "launched_state =
     \<lparr>ball = \<lparr>ball_x = 600, ball_y = 489, ball_radius = 10, ball_color = WHITE\<rparr>,
      shooting = True, start_x = 600, start_y = 489, time = 0, power_val = 12.5, angle = 0\<rparr>"

definition flying_state :: "nat \<Rightarrow> state" where
  "flying_state k =
     \<lparr>ball = \<lparr>ball_x = 600 + 0.625 * real k, ball_y = 489 + 0.01225 * (real k)\<^sup>2,
              ball_radius = 10, ball_color = WHITE\<rparr>,
      shooting = True, start_x = 600, start_y = 489, time = 0.05 * real k,
      power_val = 12.5, angle = 0\<rparr>"

text \<open>After ten ticks the ball is below the ground line \<open>HEIGHT - radius = 490\<close>.\<close>

definition falling_state :: state where
  "falling_state =
     \<lparr>ball = \<lparr>ball_x = 606.25, ball_y = 490.225, ball_radius = 10, ball_color = WHITE\<rparr>,
      shooting = True, start_x = 600, start_y = 489, time = 0.5, power_val = 12.5, angle = 0\<rparr>"

text \<open>The eleventh tick stops it.\<close>

definition landed_state :: state where
  "landed_state =
     \<lparr>ball = \<lparr>ball_x = 606.25, ball_y = 489, ball_radius = 10, ball_color = WHITE\<rparr>,
      shooting = False, start_x = 600, start_y = 489, time = 0.5, power_val = 12.5, angle = 0\<rparr>"

text \<open>
  A state written down directly (no run from the initial state is claimed to reach
  it): a shot straight up with power 3.9 whose ball, at time 1, is exactly on the ground
  line, 489 - (3.9 * 1 - 4.9 * 1) = 490.
\<close>

definition grazing_state :: state where
  "grazing_state =
     \<lparr>ball = \<lparr>ball_x = 600, ball_y = 490, ball_radius = 10, ball_color = WHITE\<rparr>,
      shooting = True, start_x = 600, start_y = 489, time = 1, power_val = 3.9, angle = pi / 2\<rparr>"

section \<open>Auxiliary facts\<close>

subsection \<open>The pure functions\<close>

lemma get_power_value:
  "get_power l =
     Inr (sqrt ((fst (snd l) - fst (fst l))\<^sup>2 + (snd (snd l) - snd (fst l))\<^sup>2) / 8)"
  by (simp add: get_power_def py_sqrt_def py_truediv_def not_less add.commute)

lemma get_power_nonneg:
  assumes "get_power l = Inr p"
  shows "0 \<le> p"
proof -
  define r where "r = sqrt ((fst (snd l) - fst (fst l))\<^sup>2 + (snd (snd l) - snd (fst l))\<^sup>2)"
  have "0 \<le> r" by (simp add: r_def)
  moreover from assms have "p = r / 8"
    by (simp only: get_power_value sum.inject r_def)
  ultimately show ?thesis by linarith
qed

lemma get_angle_vertical:
  "fst (snd l) = fst (fst l) \<Longrightarrow> get_angle l = Inr (pi / 2)"
  by (simp add: get_angle_def Let_def)

lemma get_angle_slanted:
  "fst (snd l) \<noteq> fst (fst l) \<Longrightarrow>
   get_angle l =
     Inr (let x = fst (fst l); y = snd (fst l); mouse_x = fst (snd l); mouse_y = snd (snd l);
              raw = arctan ((mouse_y - y) / (mouse_x - x))
          in if x < mouse_x \<and> y > mouse_y then \<bar>raw\<bar>
             else if x > mouse_x \<and> y > mouse_y then pi - raw
             else if x > mouse_x \<and> y < mouse_y then pi + \<bar>raw\<bar>
             else if x < mouse_x \<and> y < mouse_y then 2 * pi - raw
             else raw)"
  by (simp add: get_angle_def py_truediv_def Let_def)

lemma get_angle_total: "\<exists>a. get_angle l = Inr a"
proof (cases "fst (snd l) = fst (fst l)")
  case True
  from get_angle_vertical [OF True] show ?thesis by (rule exI)
next
  case False
  from get_angle_slanted [OF False] show ?thesis by (rule exI)
qed

text \<open>
  The range of the angle, branch by branch: \<open>arctan\<close> lies strictly between \<open>- pi / 2\<close>
  and \<open>pi / 2\<close>; in the branch \<open>2 * pi - raw\<close> both differences are positive, so the
  raw angle is; with equal heights the raw angle is \<open>arctan 0\<close>.
\<close>

lemma get_angle_range:
  assumes "get_angle l = Inr a"
  shows "0 \<le> a \<and> a < 2 * pi"
proof (cases "fst (snd l) = fst (fst l)")
  case True
  from assms get_angle_vertical [OF True] have "Inr a = (Inr (pi / 2) :: py_error + real)"
    by (simp only:)
  then have "a = pi / 2" by (simp only: sum.inject)
  then show ?thesis using pi_gt_zero by linarith
next
  case False
  define x where "x = fst (fst l)"
  define y where "y = snd (fst l)"
  define mx where "mx = fst (snd l)"
  define my where "my = snd (snd l)"
  define raw where "raw = arctan ((my - y) / (mx - x))"
  have lo: "- (pi / 2) < raw"
    unfolding raw_def by (rule arctan_lbound)
  have hi: "raw < pi / 2"
    unfolding raw_def by (rule arctan_ubound)
  have a: "a = (if x < mx \<and> y > my then \<bar>raw\<bar>
             else if x > mx \<and> y > my then pi - raw
             else if x > mx \<and> y < my then pi + \<bar>raw\<bar>
             else if x < mx \<and> y < my then 2 * pi - raw
             else raw)"
    unfolding x_def y_def mx_def my_def raw_def
    using assms get_angle_slanted [OF False]
    by (simp only: sum.inject Let_def)
  have neq: "mx \<noteq> x" using False by (simp add: x_def mx_def)
  consider (ru) "x < mx" "y > my" | (lu) "x > mx" "y > my" | (ld) "x > mx" "y < my"
    | (rd) "x < mx" "y < my" | (flat) "y = my"
    using neq by linarith
  then show ?thesis
  proof cases
    case ru
    then have "a = \<bar>raw\<bar>" using a by simp
    then show ?thesis using lo hi pi_gt_zero by linarith
  next
    case lu
    then have "a = pi - raw" using a by simp
    then show ?thesis using lo hi pi_gt_zero by linarith
  next
    case ld
    then have "a = pi + \<bar>raw\<bar>" using a by simp
    then show ?thesis using lo hi pi_gt_zero by linarith
  next
    case rd
    then have "a = 2 * pi - raw" using a by simp
    moreover have "0 < raw" using rd by (simp add: raw_def)
    ultimately show ?thesis using hi pi_gt_zero by linarith
  next
    case flat
    then have "a = raw" using a by simp
    moreover have "raw = 0" using flat by (simp add: raw_def)
    ultimately show ?thesis using pi_gt_zero by simp
  qed
qed

lemma snd_next_position:
  "snd (next_position sx sy pw ang t) = sy - (sin ang * pw * t - 4.9 * t\<^sup>2)"
  by (simp add: next_position_def Let_def)

subsection \<open>The three branches of the tick, and the press\<close>

lemma tick_airborne:
  "airborne s \<Longrightarrow>
   tick s =
     s\<lparr>time := time s + 0.05,
       ball := (ball s)
         \<lparr>ball_x := fst (next_position (start_x s) (start_y s) (power_val s) (angle s) (time s + 0.05)),
          ball_y := snd (next_position (start_x s) (start_y s) (power_val s) (angle s) (time s + 0.05))\<rparr>\<rparr>"
  by (simp add: tick_def airborne_def Let_def)

lemma tick_landing:
  "shooting s \<Longrightarrow> HEIGHT - ball_radius (ball s) < ball_y (ball s) \<Longrightarrow>
   tick s = s\<lparr>shooting := False, ball := (ball s)\<lparr>ball_y := START_Y\<rparr>\<rparr>"
  by (simp add: tick_def)

lemma tick_idle: "\<not> shooting s \<Longrightarrow> tick s = s"
  by (simp add: tick_def)

lemma press_shooting: "shooting s \<Longrightarrow> handle_event (MOUSEBUTTONDOWN m) s = Running s"
  by (simp add: handle_event_def)

lemma press_idle:
  assumes "\<not> shooting s"
  shows "\<exists>p a. get_power ((ball_x (ball s), ball_y (ball s)), (real_of_int (fst m), real_of_int (snd m))) = Inr p
           \<and> get_angle ((ball_x (ball s), ball_y (ball s)), (real_of_int (fst m), real_of_int (snd m))) = Inr a
           \<and> handle_event (MOUSEBUTTONDOWN m) s =
               Running (s\<lparr>shooting := True, start_x := ball_x (ball s), start_y := ball_y (ball s),
                          time := 0, power_val := p, angle := a\<rparr>)"
proof -
  let ?l = "((ball_x (ball s), ball_y (ball s)), (real_of_int (fst m), real_of_int (snd m)))"
  obtain a where a: "get_angle ?l = Inr a" using get_angle_total by blast
  obtain p where p: "get_power ?l = Inr p" using get_power_value by blast
  show ?thesis using assms a p by (simp add: handle_event_def)
qed

text \<open>
  A run of airborne ticks, by induction on their number: the launch parameters stay,
  the time grows by 0.05 a tick, and the ball is where \<open>next_position\<close> puts it.
\<close>

lemma ticks_airborne:
  "(\<And>k. k < n \<Longrightarrow> airborne ((tick ^^ k) s)) \<Longrightarrow>
   start_x ((tick ^^ n) s) = start_x s \<and> start_y ((tick ^^ n) s) = start_y s \<and>
   power_val ((tick ^^ n) s) = power_val s \<and> angle ((tick ^^ n) s) = angle s \<and>
   time ((tick ^^ n) s) = time s + 0.05 * real n \<and>
   (0 < n \<longrightarrow> position ((tick ^^ n) s) =
      next_position (start_x s) (start_y s) (power_val s) (angle s) (time s + 0.05 * real n))"
proof (induction n)
  case 0
  then show ?case by simp
next
  case (Suc n)
  have air: "airborne ((tick ^^ n) s)" using Suc.prems by simp
  have ih: "start_x ((tick ^^ n) s) = start_x s \<and> start_y ((tick ^^ n) s) = start_y s \<and>
   power_val ((tick ^^ n) s) = power_val s \<and> angle ((tick ^^ n) s) = angle s \<and>
   time ((tick ^^ n) s) = time s + 0.05 * real n"
    using Suc.IH Suc.prems by simp
  have t: "time s + real n / 20 + 1 / 20 = time s + (1 + real n) / 20"
    by (simp add: field_simps)
  show ?case
    using ih by (simp add: tick_airborne [OF air] position_def t)
qed

subsection \<open>The invariant is kept\<close>

lemma consistent_iff:
  "consistent s \<longleftrightarrow>
     (if shooting s then 0 \<le> power_val s \<and> 0 \<le> angle s \<and> angle s < 2 * pi \<and> 0 \<le> time s
      else ball_y (ball s) = START_Y)"
  by (auto simp: consistent_def tick_idle)

lemma consistent_initial: "consistent initial_state"
  by (simp add: consistent_iff initial_state_def)

lemma consistent_tick: "consistent s \<Longrightarrow> consistent (tick s)"
  by (auto simp: consistent_iff tick_def Let_def)

lemma consistent_handle_event:
  assumes "consistent s" "handle_event ev s = Running s'"
  shows "consistent s'"
proof (cases ev)
  case QUIT
  with assms show ?thesis by (simp add: handle_event_def)
next
  case OTHER
  with assms show ?thesis by (simp add: handle_event_def)
next
  case (MOUSEBUTTONDOWN m)
  show ?thesis
  proof (cases "shooting s")
    case True
    with assms MOUSEBUTTONDOWN show ?thesis by (simp add: press_shooting)
  next
    case False
    from press_idle [OF False, of m] obtain p a where
      p: "get_power ((ball_x (ball s), ball_y (ball s)), (real_of_int (fst m), real_of_int (snd m))) = Inr p"
      and a: "get_angle ((ball_x (ball s), ball_y (ball s)), (real_of_int (fst m), real_of_int (snd m))) = Inr a"
      and r: "handle_event (MOUSEBUTTONDOWN m) s =
               Running (s\<lparr>shooting := True, start_x := ball_x (ball s), start_y := ball_y (ball s),
                          time := 0, power_val := p, angle := a\<rparr>)"
      by blast
    from r assms(2) MOUSEBUTTONDOWN
    have s': "s' = s\<lparr>shooting := True, start_x := ball_x (ball s), start_y := ball_y (ball s),
                     time := 0, power_val := p, angle := a\<rparr>"
      by simp
    show ?thesis using get_power_nonneg [OF p] get_angle_range [OF a]
      by (simp add: s' consistent_iff)
  qed
qed

lemma consistent_handle_events:
  "consistent s \<Longrightarrow> handle_events evs s = Running s' \<Longrightarrow> consistent s'"
proof (induction evs arbitrary: s)
  case Nil
  then show ?case by simp
next
  case (Cons ev evs)
  then show ?case
    by (auto split: outcome.splits dest: consistent_handle_event)
qed

lemma consistent_run:
  "consistent s \<Longrightarrow> run evss s = Running s' \<Longrightarrow> consistent s'"
proof (induction evss arbitrary: s)
  case Nil
  then show ?case by simp
next
  case (Cons evs evss)
  from Cons.prems(2) obtain s1 where
    it: "handle_events evs (tick s) = Running s1" and rest: "run evss s1 = Running s'"
    by (auto simp: iteration_def split: outcome.splits)
  have "consistent s1"
    using consistent_handle_events [OF consistent_tick [OF Cons.prems(1)] it] .
  then show ?case using Cons.IH rest by blast
qed

subsection \<open>The checked functions\<close>











subsection \<open>The concrete shot, step by step\<close>

lemma get_power_right_100: "get_power ((600, 489), (700, 489)) = Inr 12.5"
proof -
  have "sqrt ((100::real)\<^sup>2) = 100" by (simp only: real_sqrt_abs)
  then show ?thesis by (simp add: get_power_value)
qed

lemma get_angle_right_100: "get_angle ((600, 489), (700, 489)) = Inr 0"
  by (simp add: get_angle_slanted)

lemma press_initial:
  "handle_event (MOUSEBUTTONDOWN (700, 489)) initial_state = Running launched_state"
  by (simp add: handle_event_def initial_state_def launched_state_def START_X_def START_Y_def
        WIDTH_def HEIGHT_def RADIUS_def get_power_right_100 get_angle_right_100)

lemma first_iteration:
  "iteration [MOUSEBUTTONDOWN (700, 489)] initial_state = Running launched_state"
  by (simp add: iteration_def tick_idle initial_state_def press_initial [unfolded initial_state_def])

lemma flying_0: "flying_state 0 = launched_state"
  by (simp add: flying_state_def launched_state_def)

lemma flying_airborne: "k \<le> 9 \<Longrightarrow> airborne (flying_state k)"
proof -
  assume "k \<le> 9"
  then have "real k \<le> 9" by simp
  then have "(real k)\<^sup>2 \<le> 9\<^sup>2" by (intro power_mono) simp_all
  then have "0.01225 * (real k)\<^sup>2 \<le> 1" by simp
  then show ?thesis by (simp add: airborne_def flying_state_def HEIGHT_def)
qed

lemma flying_step: "k \<le> 9 \<Longrightarrow> tick (flying_state k) = flying_state (Suc k)"
  by (simp add: tick_airborne [OF flying_airborne] next_position_def Let_def)
     (simp add: flying_state_def power2_eq_square field_simps)

lemma flying_ticks: "k \<le> 10 \<Longrightarrow> (tick ^^ k) launched_state = flying_state k"
  by (induction k) (simp_all add: flying_0 flying_step)

lemma flying_10: "flying_state 10 = falling_state"
  by (simp add: flying_state_def falling_state_def)

lemma run_no_events: "run (replicate n []) s = Running ((tick ^^ n) s)"
  by (induction n arbitrary: s) (simp_all add: iteration_def funpow_swap1)

lemma run_to_falling:
  "run ([MOUSEBUTTONDOWN (700, 489)] # replicate 10 []) initial_state = Running falling_state"
  by (simp add: first_iteration run_no_events flying_ticks flying_10)

lemma tick_falling: "tick falling_state = landed_state"
  by (simp add: tick_def falling_state_def landed_state_def HEIGHT_def START_Y_def RADIUS_def)

lemma run_to_landed:
  "run ([MOUSEBUTTONDOWN (700, 489)] # replicate 11 []) initial_state = Running landed_state"
proof -
  have "(tick ^^ 11) launched_state = tick ((tick ^^ 10) launched_state)"
    by (simp add: eval_nat_numeral)
  then show ?thesis
    by (simp add: first_iteration run_no_events flying_ticks flying_10 tick_falling)
qed

section \<open>Properties\<close>

subsection \<open>Kinematics\<close>

text \<open>
  C1. For all real start_x, start_y, power, angle and time, \<open>next_position\<close> returns
  exactly (start_x + power * cos angle * time,
  start_y - (power * sin angle * time - 4.9 * time^2)): the horizontal velocity is
  power * cos angle, the vertical velocity power * sin angle, and the y axis is inverted.
\<close>

theorem next_position_closed_form:
  "next_position sx sy pw ang t =
     (sx + pw * cos ang * t, sy - (pw * sin ang * t - 4.9 * t\<^sup>2))"
  by (simp add: next_position_def Let_def mult.commute)

subsection \<open>Landing\<close>

text \<open>
  C2, as the code has it. Whenever a shot is under way and the ball's height is
  strictly greater than \<open>HEIGHT - radius\<close> at the start of a tick, that tick sets
  \<open>shooting\<close> to false and the ball's height to \<open>START_Y = 489\<close>, and leaves the
  ball's x where it landed: only \<^verbatim>\<open>ball.y\<close> is assigned in the stopping branch.
\<close>

theorem landing_resets_height:
  "shooting s \<and> HEIGHT - ball_radius (ball s) < ball_y (ball s) \<longrightarrow>
     \<not> shooting (tick s) \<and> ball_y (ball (tick s)) = START_Y \<and> START_Y = 489
     \<and> ball_x (ball (tick s)) = ball_x (ball s)"
  by (simp add: tick_landing START_Y_def HEIGHT_def RADIUS_def)

theorem landing_resets_height_witness:
  "shooting falling_state \<and> HEIGHT - ball_radius (ball falling_state) < ball_y (ball falling_state)
   \<and> \<not> shooting (tick falling_state) \<and> ball_y (ball (tick falling_state)) = 489
   \<and> ball_x (ball (tick falling_state)) = 606.25"
proof -
  have pre: "shooting falling_state
      \<and> HEIGHT - ball_radius (ball falling_state) < ball_y (ball falling_state)"
    by (simp add: falling_state_def HEIGHT_def)
  have x: "ball_x (ball falling_state) = 606.25" by (simp add: falling_state_def)
  from landing_resets_height [of falling_state] pre x show ?thesis by simp
qed

text \<open>
  The statement with "at or below the ground line" and "snapped back to (600, 489)"
  fails twice. The shot to the right reaches, after ten ticks, a state with the ball at
  height 490.225; the next tick shows it at (606.25, 489), not at the launch pad. And in
  a state with the ball exactly on the line, at height 490, the moving branch's test
  \<^verbatim>\<open>ball.y <= HEIGHT - ball.radius\<close> holds: the shot goes on.
\<close>

theorem landing_keeps_x_counterexample:
  "run ([MOUSEBUTTONDOWN (700, 489)] # replicate 10 []) initial_state = Running falling_state
   \<and> shooting falling_state
   \<and> HEIGHT - ball_radius (ball falling_state) \<le> ball_y (ball falling_state)
   \<and> position (tick falling_state) = (606.25, 489)
   \<and> position (tick falling_state) \<noteq> (START_X, START_Y)
   \<and> shooting grazing_state
   \<and> HEIGHT - ball_radius (ball grazing_state) \<le> ball_y (ball grazing_state)
   \<and> shooting (tick grazing_state)"
proof -
  have a: "shooting falling_state"
    and b: "HEIGHT - ball_radius (ball falling_state) \<le> ball_y (ball falling_state)"
    by (simp_all add: falling_state_def HEIGHT_def)
  have c: "position (tick falling_state) = (606.25, 489)"
    by (simp add: tick_falling position_def landed_state_def)
  have d: "position (tick falling_state) \<noteq> (START_X, START_Y)"
    by (simp add: c START_X_def WIDTH_def)
  have e: "airborne grazing_state"
    by (simp add: airborne_def grazing_state_def HEIGHT_def)
  have f: "shooting grazing_state"
    and g: "HEIGHT - ball_radius (ball grazing_state) \<le> ball_y (ball grazing_state)"
    by (simp_all add: grazing_state_def HEIGHT_def)
  have h: "shooting (tick grazing_state)"
    using f by (simp add: tick_airborne [OF e])
  show ?thesis using run_to_falling a b c d f g h by (simp only: simp_thms)
qed

subsection \<open>The invariant at the top of an iteration\<close>

text \<open>
  C3, as the code has it. At the top of every loop iteration reached from the initial
  state, exactly one of the following holds: \<open>shooting\<close> is false and the ball is
  stationary on the ground line (its height is \<open>START_Y\<close> and a tick leaves it where it
  is; its x is wherever the last shot landed); or \<open>shooting\<close> is true with power
  \<open>\<ge> 0\<close>, angle in \<open>[0, 2 * pi)\<close> and elapsed time \<open>\<ge> 0\<close>.
\<close>

theorem observation_invariant:
  "run evss initial_state = Running s \<Longrightarrow>
     ((\<not> shooting s \<and> ball_y (ball s) = START_Y \<and> position (tick s) = position s)
       \<noteq> (shooting s \<and> 0 \<le> power_val s \<and> 0 \<le> angle s \<and> angle s < 2 * pi \<and> 0 \<le> time s))"
proof -
  assume "run evss initial_state = Running s"
  then have "consistent s" by (rule consistent_run [OF consistent_initial])
  then show ?thesis unfolding consistent_def .
qed

theorem observation_invariant_witness:
  "run ([MOUSEBUTTONDOWN (700, 489)] # replicate 11 []) initial_state = Running landed_state
   \<and> ((\<not> shooting landed_state \<and> ball_y (ball landed_state) = START_Y
        \<and> position (tick landed_state) = position landed_state)
       \<noteq> (shooting landed_state \<and> 0 \<le> power_val landed_state \<and> 0 \<le> angle landed_state
          \<and> angle landed_state < 2 * pi \<and> 0 \<le> time landed_state))"
  using observation_invariant [OF run_to_landed] run_to_landed by (simp only: simp_thms)

text \<open>
  With "at the launch pad (600, 489)" for the resting ball the invariant breaks once a
  shot has landed: twelve iterations after the start (a press, then eleven ticks) nothing
  is being shot and the ball rests at (606.25, 489), so neither alternative holds.
\<close>

theorem launch_pad_invariant_counterexample:
  "run ([MOUSEBUTTONDOWN (700, 489)] # replicate 11 []) initial_state = Running landed_state
   \<and> \<not> (\<not> shooting landed_state \<and> position landed_state = (START_X, START_Y))
   \<and> \<not> (shooting landed_state \<and> 0 \<le> power_val landed_state \<and> 0 \<le> angle landed_state
          \<and> angle landed_state < 2 * pi \<and> 0 \<le> time landed_state)"
proof -
  have idle: "\<not> shooting landed_state"
    by (simp add: landed_state_def)
  have off_pad: "position landed_state \<noteq> (START_X, START_Y)"
    by (simp add: landed_state_def position_def START_X_def WIDTH_def)
  show ?thesis using run_to_landed idle off_pad by (simp only: simp_thms)
qed

subsection \<open>The angle of a drag\<close>

text \<open>
  C4. What \<open>get_angle\<close> returns for the three drags along the axes, from any ball
  position: 0 for a drag directly right (dx = 10, dy = 0), \<open>pi / 2\<close> for a drag directly
  up (dx = 0, dy = -10), and 0 again, not \<open>pi\<close>, for a drag directly left
  (dx = -10, dy = 0): the raw angle is \<open>arctan (0 / -10) = 0\<close> and, the heights being
  equal, none of the four quadrant tests holds, all of which compare the heights strictly.
\<close>

theorem get_angle_axis_drags:
  "get_angle ((x, y), (x + 10, y)) = Inr 0
   \<and> get_angle ((x, y), (x, y - 10)) = Inr (pi / 2)
   \<and> get_angle ((x, y), (x - 10, y)) = Inr 0"
  by (simp add: get_angle_vertical get_angle_slanted)

text \<open>
  C5. For every drag segment from the ball \<open>(x, y)\<close> to the pointer \<open>(mx, my)\<close>, with
  the raw angle \<open>arctan ((my - y) / (mx - x))\<close> when \<open>mx \<noteq> x\<close>: pointer right of and
  above the ball gives \<open>\<bar>raw\<bar>\<close>, left and above \<open>pi - raw\<close>, left and below
  \<open>pi + \<bar>raw\<bar>\<close>, right and below \<open>2 * pi - raw\<close>; on equal heights the raw angle
  is returned as it is; and when \<open>mx = x\<close> the result is \<open>pi / 2\<close> whatever the sign of
  \<open>my - y\<close>.
\<close>

theorem get_angle_quadrants:
  "(x < mx \<and> my < y \<longrightarrow> get_angle ((x, y), (mx, my)) = Inr \<bar>arctan ((my - y) / (mx - x))\<bar>)
   \<and> (mx < x \<and> my < y \<longrightarrow> get_angle ((x, y), (mx, my)) = Inr (pi - arctan ((my - y) / (mx - x))))
   \<and> (mx < x \<and> y < my \<longrightarrow> get_angle ((x, y), (mx, my)) = Inr (pi + \<bar>arctan ((my - y) / (mx - x))\<bar>))
   \<and> (x < mx \<and> y < my \<longrightarrow> get_angle ((x, y), (mx, my)) = Inr (2 * pi - arctan ((my - y) / (mx - x))))
   \<and> (mx \<noteq> x \<and> my = y \<longrightarrow> get_angle ((x, y), (mx, my)) = Inr (arctan ((my - y) / (mx - x))))
   \<and> (mx = x \<longrightarrow> get_angle ((x, y), (mx, my)) = Inr (pi / 2))"
proof (cases "mx = x")
  case True
  then have "fst (snd ((x, y), (mx, my))) = fst (fst ((x, y), (mx, my)))" by simp
  from get_angle_vertical [OF this] True show ?thesis by simp
next
  case False
  then have "fst (snd ((x, y), (mx, my))) \<noteq> fst (fst ((x, y), (mx, my)))" by simp
  from get_angle_slanted [OF this] False show ?thesis by (auto simp: Let_def)
qed

theorem get_angle_quadrants_witness:
  "get_angle ((600, 489), (700, 389)) = Inr \<bar>arctan ((389 - 489) / (700 - 600))\<bar>
   \<and> get_angle ((600, 489), (500, 389)) = Inr (pi - arctan ((389 - 489) / (500 - 600)))
   \<and> get_angle ((600, 289), (500, 389)) = Inr (pi + \<bar>arctan ((389 - 289) / (500 - 600))\<bar>)
   \<and> get_angle ((600, 289), (700, 389)) = Inr (2 * pi - arctan ((389 - 289) / (700 - 600)))
   \<and> get_angle ((600, 489), (500, 489)) = Inr (arctan ((489 - 489) / (500 - 600)))
   \<and> get_angle ((600, 489), (600, 589)) = Inr (pi / 2)"
  using get_angle_quadrants [where x = 600 and y = 489 and mx = 700 and my = 389]
    get_angle_quadrants [where x = 600 and y = 489 and mx = 500 and my = 389]
    get_angle_quadrants [where x = 600 and y = 289 and mx = 500 and my = 389]
    get_angle_quadrants [where x = 600 and y = 289 and mx = 700 and my = 389]
    get_angle_quadrants [where x = 600 and y = 489 and mx = 500 and my = 489]
    get_angle_quadrants [where x = 600 and y = 489 and mx = 600 and my = 589]
  by simp

subsection \<open>The power of a drag\<close>

text \<open>
  C6. For every drag segment \<open>get_power\<close> returns the Euclidean distance of its ends
  divided by 8, and the result is 0 if and only if the two ends are the same point.
\<close>

theorem get_power_distance:
  "get_power ((x0, y0), (x1, y1)) = Inr (sqrt ((x1 - x0)\<^sup>2 + (y1 - y0)\<^sup>2) / 8)
   \<and> ((get_power ((x0, y0), (x1, y1)) = Inr 0) = ((x0, y0) = (x1, y1)))"
proof -
  have eq: "get_power ((x0, y0), (x1, y1)) = Inr (sqrt ((x1 - x0)\<^sup>2 + (y1 - y0)\<^sup>2) / 8)"
    by (simp add: get_power_value)
  have "(sqrt ((x1 - x0)\<^sup>2 + (y1 - y0)\<^sup>2) / 8 = 0) = (x0 = x1 \<and> y0 = y1)"
    by (auto simp: sum_power2_eq_zero_iff)
  with eq show ?thesis by simp
qed

subsection \<open>Flight\<close>

text \<open>
  C7. While the ball is airborne (a shot is under way and the ball has not passed the
  ground line), a tick adds exactly 0.05 to the elapsed time, keeps the launch
  parameters captured at the press, and puts the ball at \<open>next_position\<close> of these
  parameters and the new time. Hence after \<open>n\<close> consecutive airborne ticks that follow
  a launch the elapsed time is \<open>0.05 * n\<close> and the ball is at
  \<open>next_position start_x start_y power angle (0.05 * n)\<close>.
\<close>

theorem airborne_ticks:
  "(airborne s \<longrightarrow>
      time (tick s) = time s + 0.05
      \<and> position (tick s) =
          next_position (start_x s) (start_y s) (power_val s) (angle s) (time s + 0.05)
      \<and> start_x (tick s) = start_x s \<and> start_y (tick s) = start_y s
      \<and> power_val (tick s) = power_val s \<and> angle (tick s) = angle s)
   \<and> (\<not> shooting i \<and> handle_event (MOUSEBUTTONDOWN m) i = Running s0
        \<and> (\<forall>k<n. airborne ((tick ^^ k) s0)) \<longrightarrow>
      time ((tick ^^ n) s0) = 0.05 * real n
      \<and> position ((tick ^^ n) s0) =
          next_position (start_x s0) (start_y s0) (power_val s0) (angle s0) (0.05 * real n))"
proof (intro conjI impI)
  assume "airborne s"
  note t = tick_airborne [OF this]
  show "time (tick s) = time s + 0.05" by (simp add: t)
  show "position (tick s) =
      next_position (start_x s) (start_y s) (power_val s) (angle s) (time s + 0.05)"
    by (simp add: t position_def)
  show "start_x (tick s) = start_x s" by (simp add: t)
  show "start_y (tick s) = start_y s" by (simp add: t)
  show "power_val (tick s) = power_val s" by (simp add: t)
  show "angle (tick s) = angle s" by (simp add: t)
next
  assume a: "\<not> shooting i \<and> handle_event (MOUSEBUTTONDOWN m) i = Running s0
        \<and> (\<forall>k<n. airborne ((tick ^^ k) s0))"
  then have idle: "\<not> shooting i" and air: "\<And>k. k < n \<Longrightarrow> airborne ((tick ^^ k) s0)"
    by simp_all
  from press_idle [OF idle, of m] a obtain p ang where
    s0: "s0 = i\<lparr>shooting := True, start_x := ball_x (ball i), start_y := ball_y (ball i),
                 time := 0, power_val := p, angle := ang\<rparr>"
    by auto
  have t0: "time s0 = 0" and p0: "position s0 = (start_x s0, start_y s0)"
    by (simp_all add: s0 position_def)
  note flight = ticks_airborne [of n s0, OF air]
  show "time ((tick ^^ n) s0) = 0.05 * real n"
    using flight t0 by simp
  show "position ((tick ^^ n) s0) =
          next_position (start_x s0) (start_y s0) (power_val s0) (angle s0) (0.05 * real n)"
  proof (cases n)
    case 0
    then show ?thesis by (simp add: p0 next_position_def)
  next
    case (Suc j)
    then show ?thesis using flight t0 by simp
  qed
qed

theorem airborne_ticks_witness:
  "airborne launched_state
   \<and> time (tick launched_state) = time launched_state + 0.05
   \<and> position (tick launched_state) = next_position 600 489 12.5 0 0.05
   \<and> \<not> shooting initial_state
   \<and> handle_event (MOUSEBUTTONDOWN (700, 489)) initial_state = Running launched_state
   \<and> airborne ((tick ^^ 0) launched_state) \<and> airborne ((tick ^^ 1) launched_state)
   \<and> position ((tick ^^ 2) launched_state) = next_position 600 489 12.5 0 (0.05 * 2)"
proof -
  have a0: "airborne launched_state"
    using flying_airborne [of 0] by (simp add: flying_0)
  have a1: "airborne ((tick ^^ 1) launched_state)"
    using flying_airborne [of 1] flying_ticks [of 1] by simp
  have idle: "\<not> shooting initial_state" by (simp add: initial_state_def)
  have all: "\<forall>k<2. airborne ((tick ^^ k) launched_state)"
  proof (intro allI impI)
    fix k :: nat assume "k < 2"
    then have "k = 0 \<or> k = 1" by arith
    then show "airborne ((tick ^^ k) launched_state)" using a0 a1 by auto
  qed
  have params: "start_x launched_state = 600" "start_y launched_state = 489"
    "power_val launched_state = 12.5" "angle launched_state = 0" "time launched_state = 0"
    by (simp_all add: launched_state_def)
  from airborne_ticks [of launched_state initial_state "(700, 489)" launched_state 2]
    a0 a1 idle all press_initial params
  show ?thesis by simp
qed

text \<open>
  C8. For every fixed start position, power and angle there is a time \<open>T \<ge> 0\<close> such
  that for all times \<open>t2 > t1 \<ge> T\<close> the y coordinate \<open>next_position\<close> returns at \<open>t2\<close>
  is strictly greater than at \<open>t1\<close>: on the screen the ball only goes down after \<open>T\<close>.
  The time is \<open>max 0 (v / 9.8)\<close> for the vertical velocity \<open>v = sin angle * power\<close>,
  since y(t2) - y(t1) = (t2 - t1) * (4.9 * (t1 + t2) - v).
\<close>

theorem falls_eventually:
  "\<exists>T. 0 \<le> T \<and> (\<forall>t1 t2. T \<le> t1 \<and> t1 < t2 \<longrightarrow>
      snd (next_position sx sy pw ang t1) < snd (next_position sx sy pw ang t2))"
proof -
  define v where "v = sin ang * pw"
  define T where "T = max 0 (v / 9.8)"
  have T0: "0 \<le> T" by (simp add: T_def)
  have step: "snd (next_position sx sy pw ang t1) < snd (next_position sx sy pw ang t2)"
    if "T \<le> t1" "t1 < t2" for t1 t2
  proof -
    have "v / 9.8 \<le> t1" using that(1) by (simp add: T_def)
    then have v: "v \<le> 9.8 * t1" by (simp add: field_simps)
    have "4.9 * (t1 + t2) - v > 0" using v that(2) by argo
    then have pos: "(t2 - t1) * (4.9 * (t1 + t2) - v) > 0" using that(2) by simp
    have "(t2 - t1) * (4.9 * (t1 + t2) - v) = (v * t1 - 4.9 * t1\<^sup>2) - (v * t2 - 4.9 * t2\<^sup>2)"
      by (simp add: power2_eq_square field_simps)
    with pos have "v * t2 - 4.9 * t2\<^sup>2 < v * t1 - 4.9 * t1\<^sup>2" by linarith
    then show ?thesis by (simp add: snd_next_position v_def)
  qed
  show ?thesis using T0 step by blast
qed

theorem falls_eventually_witness:
  "\<exists>T. 0 \<le> T
     \<and> snd (next_position 600 489 12.5 0 T) < snd (next_position 600 489 12.5 0 (T + 1))"
proof -
  from falls_eventually [of 600 489 "12.5" 0] obtain T where
    T: "0 \<le> T" and mono: "\<forall>t1 t2. T \<le> t1 \<and> t1 < t2 \<longrightarrow>
      snd (next_position 600 489 12.5 0 t1) < snd (next_position 600 489 12.5 0 t2)"
    by blast
  have "T \<le> T \<and> T < T + 1" by simp
  with mono have "snd (next_position 600 489 12.5 0 T) < snd (next_position 600 489 12.5 0 (T + 1))"
    by blast
  with T show ?thesis by blast
qed

subsection \<open>The press\<close>

text \<open>
  C9. A \<^verbatim>\<open>MOUSEBUTTONDOWN\<close> acts only when nothing is being shot. While \<open>shooting\<close>
  is true it leaves the whole state as it is: \<open>shooting\<close>, the start position, power,
  angle, elapsed time and the ball. Otherwise it takes the segment from the ball's
  position to the pointer's, stores the ball's position as the start position, the
  segment's power and angle, sets the elapsed time to 0 and \<open>shooting\<close> to true; the
  ball is not moved.
\<close>

theorem press_only_when_idle:
  "(shooting s \<longrightarrow> handle_event (MOUSEBUTTONDOWN m) s = Running s)
   \<and> (\<not> shooting s \<longrightarrow>
        (\<exists>p a. get_power (position s, (real_of_int (fst m), real_of_int (snd m))) = Inr p
             \<and> get_angle (position s, (real_of_int (fst m), real_of_int (snd m))) = Inr a
             \<and> handle_event (MOUSEBUTTONDOWN m) s =
                 Running (s\<lparr>shooting := True, start_x := ball_x (ball s),
                            start_y := ball_y (ball s), time := 0, power_val := p, angle := a\<rparr>)))"
  using press_shooting [of s m] press_idle [of s m] by (simp add: position_def)

theorem press_only_when_idle_witness:
  "shooting launched_state
   \<and> handle_event (MOUSEBUTTONDOWN (100, 100)) launched_state = Running launched_state
   \<and> \<not> shooting initial_state
   \<and> (\<exists>p a. get_power (position initial_state, (700, 489)) = Inr p
          \<and> get_angle (position initial_state, (700, 489)) = Inr a
          \<and> handle_event (MOUSEBUTTONDOWN (700, 489)) initial_state =
              Running (initial_state\<lparr>shooting := True, start_x := 600, start_y := 489,
                         time := 0, power_val := p, angle := a\<rparr>))"
proof -
  have sh: "shooting launched_state" by (simp add: launched_state_def)
  have idle: "\<not> shooting initial_state" by (simp add: initial_state_def)
  have pad: "ball_x (ball initial_state) = 600" "ball_y (ball initial_state) = 489"
    by (simp_all add: initial_state_def START_X_def START_Y_def WIDTH_def HEIGHT_def RADIUS_def)
  from press_only_when_idle [of launched_state "(100, 100)"]
       press_only_when_idle [of initial_state "(700, 489)"] sh idle pad
  show ?thesis by simp
qed

subsection \<open>Totality\<close>




end
